theory Spec2Isabelle
  imports Complex_Main "HOL-Library.Product_Lexorder" "HOL-Library.List_Lexorder"
begin

section \<open>Python values\<close>

text \<open>
  A Python \<open>str\<close> is a sequence of Unicode code points, and the transcripts this program
  handles are Chinese: a character is modelled as its code point, so that \<open>length\<close> and
  \<open>take\<close> count what \<open>len\<close> and slicing count in the source. ASCII literals of the
  source are written with \<open>ascii\<close>.
\<close>

type_synonym pystr = "nat list"

definition ascii :: "string \<Rightarrow> pystr" where
  "ascii s = map of_char s"

text \<open>
  The values \<open>json.loads\<close> and \<open>resp.json()\<close> build: \<open>None\<close>, \<open>bool\<close>, \<open>int\<close>, \<open>float\<close>
  (a finite float, held as the rational it denotes), \<open>str\<close>, \<open>list\<close> and \<open>dict\<close>. A \<open>dict\<close>
  is an association list with distinct keys, read with \<open>map_of\<close>.
\<close>

datatype json =
    JNull
  | JBool bool
  | JInt int
  | JFloat rat
  | JStr pystr
  | JArr "json list"
  | JObj "(pystr \<times> json) list"

datatype error =
  TypeError | KeyError | AttributeError | ValueError | IndexError | ZeroDivisionError

section \<open>Data model\<close>

text \<open>
  \<open>models.TranscriptLine\<close>: the three columns the chapter generator reads (the column
  \<open>text\<close> is \<open>line_text\<close> here). \<open>ChapterData\<close> is the dataclass of
  \<open>llm_chapter_generator.py\<close>; a dataclass does not check its annotations, and the response
  parser stores whatever JSON value the model sent in \<open>title\<close>, \<open>summary\<close> and \<open>order\<close>, so
  these three fields hold a \<open>json\<close>. \<open>confidence\<close> holds the value of the float literal.
\<close>

record TranscriptLine =
  start_sec :: int
  end_sec :: "int option"
  line_text :: pystr

record ChapterData =
  title :: json
  start_sec :: int
  end_sec :: "int option"
  summary :: json
  tags :: "pystr option"
  source :: pystr
  confidence :: "rat option"
  order :: json

section \<open>Formatting\<close>

fun digits10 :: "nat \<Rightarrow> pystr" where
  "digits10 n = (if n < 10 then [48 + n] else digits10 (n div 10) @ [48 + n mod 10])"

declare digits10.simps [simp del]

text \<open>\<open>str(n)\<close>, which is also \<open>f"{n}"\<close>.\<close>

definition py_str_int :: "int \<Rightarrow> pystr" where
  "py_str_int n = (if n < 0 then 45 # digits10 (nat (- n)) else digits10 (nat n))"

text \<open>\<open>f"{n:02d}"\<close>: zero padding to width two, the sign counted in the width.\<close>

definition format_02d :: "int \<Rightarrow> pystr" where
  "format_02d n = (let s = py_str_int n in if length s < 2 then 48 # s else s)"

text \<open>\<open>_format_seconds\<close>; \<open>//\<close> and \<open>%\<close> of Python floor, as \<open>div\<close> and \<open>mod\<close> on \<open>int\<close> do.\<close>

definition format_seconds :: "int \<Rightarrow> pystr" where
  "format_seconds total_seconds =
     (let hours = total_seconds div 3600;
          minutes = (total_seconds mod 3600) div 60;
          seconds = total_seconds mod 60
      in format_02d hours @ ascii '':'' @ format_02d minutes @ ascii '':'' @ format_02d seconds)"

section \<open>Single-chapter regeneration\<close>

text \<open>The \<open>for\<close> loop with \<open>break\<close> of \<open>regenerate_single_chapter\<close>.\<close>

fun context_line :: "TranscriptLine list \<Rightarrow> int \<Rightarrow> TranscriptLine option" where
  "context_line [] new_start_sec = None"
| "context_line (line # rest) new_start_sec =
     (if TranscriptLine.start_sec line \<ge> new_start_sec then Some line
      else context_line rest new_start_sec)"

definition regenerate_single_chapter ::
  "TranscriptLine list \<Rightarrow> int \<Rightarrow> pystr \<Rightarrow> pystr option \<Rightarrow> ChapterData" where
  "regenerate_single_chapter transcript_lines new_start_sec existing_title existing_summary =
     (let context_text = (case context_line transcript_lines new_start_sec of
                            Some l \<Rightarrow> line_text l
                          | None \<Rightarrow> ascii ''No nearby transcript context.'');
          title = ascii ''Adjusted Chapter @ '' @ format_seconds new_start_sec;
          summary = ascii ''Auto-updated using nearby transcript: '' @ take 120 context_text
      in \<lparr>title = JStr title,
          start_sec = new_start_sec,
          end_sec = None,
          summary = JStr summary,
          tags = None,
          source = ascii ''ai_edit'',
          confidence = Some (6 / 10),
          order = JNull\<rparr>)"

section \<open>Snapping candidates to the transcript\<close>

text \<open>
  \<open>min(xs)\<close> and \<open>max(xs)\<close> raise \<open>ValueError\<close> on an empty list; \<open>min(xs, key=f)\<close>
  returns the first element whose key is minimal.
\<close>

definition py_min :: "int list \<Rightarrow> error + int" where
  "py_min xs = (case xs of [] \<Rightarrow> Inl ValueError | x # rest \<Rightarrow> Inr (foldl min x rest))"

definition py_max :: "int list \<Rightarrow> error + int" where
  "py_max xs = (case xs of [] \<Rightarrow> Inl ValueError | x # rest \<Rightarrow> Inr (foldl max x rest))"

definition min_key :: "(int \<Rightarrow> int) \<Rightarrow> int \<Rightarrow> int list \<Rightarrow> int" where
  "min_key f x rest = foldl (\<lambda>best y. if f y < f best then y else best) x rest"

text \<open>\<open>_nearest_time\<close>.\<close>

definition nearest_time :: "int \<Rightarrow> int list \<Rightarrow> int" where
  "nearest_time target candidates =
     (case candidates of
        [] \<Rightarrow> target
      | x # rest \<Rightarrow> min_key (\<lambda>x. \<bar>x - target\<bar>) x rest)"

definition end_or_start :: "TranscriptLine \<Rightarrow> int" where
  "end_or_start l =
     (case TranscriptLine.end_sec l of Some e \<Rightarrow> e | None \<Rightarrow> TranscriptLine.start_sec l)"

definition snap_one :: "int list \<Rightarrow> int list \<Rightarrow> int \<Rightarrow> int \<Rightarrow> ChapterData \<Rightarrow> ChapterData" where
  "snap_one starts ends min_time max_time ch =
     (let start_raw = max (min (ChapterData.start_sec ch) max_time) min_time;
          end_raw = max (min (case ChapterData.end_sec ch of Some e \<Rightarrow> e
                                | None \<Rightarrow> ChapterData.start_sec ch) max_time) min_time;
          snapped_start = nearest_time start_raw starts;
          snapped_end = nearest_time end_raw ends;
          snapped_end = (if snapped_end < snapped_start then snapped_start else snapped_end)
      in \<lparr>title = title ch,
          start_sec = snapped_start,
          end_sec = Some snapped_end,
          summary = summary ch,
          tags = tags ch,
          source = source ch,
          confidence = confidence ch,
          order = order ch\<rparr>)"

text \<open>\<open>_snap_chapters_to_transcript\<close>; \<open>snap_one\<close> is the body of its loop.\<close>

definition snap_chapters_to_transcript ::
  "ChapterData list \<Rightarrow> TranscriptLine list \<Rightarrow> error + ChapterData list" where
  "snap_chapters_to_transcript chapters transcript_lines =
     (if chapters = [] \<or> transcript_lines = [] then Inr chapters
      else
        let starts = map TranscriptLine.start_sec transcript_lines;
            ends = map end_or_start transcript_lines
        in case py_min starts of
             Inl e \<Rightarrow> Inl e
           | Inr min_time \<Rightarrow>
               (case py_max ends of
                  Inl e \<Rightarrow> Inl e
                | Inr max_time \<Rightarrow>
                    Inr (map (snap_one starts ends min_time max_time) chapters)))"


section \<open>Fallback generator\<close>

text \<open>
  \<open>xs[-1]\<close> raises \<open>IndexError\<close> on an empty list, \<open>a // b\<close> raises
  \<open>ZeroDivisionError\<close> when \<open>b\<close> is zero, and \<open>range(n)\<close> is empty for \<open>n \<le> 0\<close>.
\<close>

definition py_last :: "'a list \<Rightarrow> error + 'a" where
  "py_last xs = (case rev xs of [] \<Rightarrow> Inl IndexError | x # _ \<Rightarrow> Inr x)"

definition py_floordiv :: "int \<Rightarrow> int \<Rightarrow> error + int" where
  "py_floordiv a b = (if b = 0 then Inl ZeroDivisionError else Inr (a div b))"

definition py_range :: "int \<Rightarrow> int list" where
  "py_range n = [0..n - 1]"

text \<open>
  The two assignments to \<open>duration\<close>, which \<open>_fallback_stub\<close> and
  \<open>generate_chapters_from_transcript\<close> both make from the last line by start:
  \<open>x.end_sec or x.start_sec\<close>, where \<open>None\<close> and \<open>0\<close> are false, then the \<open>max\<close> with the
  start.
\<close>

definition line_duration :: "TranscriptLine \<Rightarrow> int" where
  "line_duration x =
     (let duration = (case TranscriptLine.end_sec x of
                        None \<Rightarrow> TranscriptLine.start_sec x
                      | Some e \<Rightarrow> if e = 0 then TranscriptLine.start_sec x else e)
      in max duration (TranscriptLine.start_sec x))"

text \<open>The body of the loop of \<open>_fallback_stub\<close>.\<close>

definition stub_chapter :: "int \<Rightarrow> int \<Rightarrow> int \<Rightarrow> ChapterData" where
  "stub_chapter step duration idx =
     (let start = idx * step;
          end = min ((idx + 1) * step) duration;
          title = ascii ''Chapter '' @ py_str_int (idx + 1) @ ascii '': '' @
                  format_seconds start @ ascii '' - '' @ format_seconds end
      in \<lparr>title = JStr title,
          start_sec = start,
          end_sec = Some end,
          summary = JStr (ascii ''Placeholder summary for this segment.''),
          tags = None,
          source = ascii ''auto_stub'',
          confidence = Some (5 / 10),
          order = JInt (idx + 1)\<rparr>)"

text \<open>
  \<open>_fallback_stub\<close>. \<open>sorted\<close> is stable, as \<open>sort_key\<close> is; \<open>max_chapters or 10\<close> is 10 when
  \<open>max_chapters\<close> is zero.
\<close>

definition fallback_stub :: "TranscriptLine list \<Rightarrow> int \<Rightarrow> error + ChapterData list" where
  "fallback_stub transcript_lines max_chapters =
     (if transcript_lines = [] then Inr []
      else
        let sorted_lines = sort_key TranscriptLine.start_sec transcript_lines
        in (case py_last sorted_lines of
              Inl e \<Rightarrow> Inl e
            | Inr lst \<Rightarrow>
                (let duration = line_duration lst;
                     chapter_count = min (if max_chapters = 0 then 10 else max_chapters) 10
                 in (case py_floordiv duration chapter_count of
                       Inl e \<Rightarrow> Inl e
                     | Inr q \<Rightarrow>
                         (let step = max q 1
                          in Inr (map (stub_chapter step duration) (py_range chapter_count)))))))"

section \<open>Strings of the interpreter\<close>

text \<open>
  \<open>Py_UNICODE_ISSPACE\<close>: the code points that \<open>str.strip\<close> removes and that \<open>\s\<close> matches in
  a \<open>str\<close> pattern.
\<close>

definition is_space :: "nat \<Rightarrow> bool" where
  "is_space c \<longleftrightarrow>
     (9 \<le> c \<and> c \<le> 13) \<or> (28 \<le> c \<and> c \<le> 32) \<or> c = 133 \<or> c = 160 \<or> c = 5760 \<or>
     (8192 \<le> c \<and> c \<le> 8202) \<or> c = 8232 \<or> c = 8233 \<or> c = 8239 \<or> c = 8287 \<or> c = 12288"

text \<open>
  The decimal digits. The interpreter's table of the Unicode category Nd
  (\<open>Py_UNICODE_TODECIMAL\<close>) is a parameter, \<open>ud\<close>, wherever digits are read; it is consulted
  for code points that are neither ASCII nor whitespace, and a digit is a value below ten.
  \<open>\d\<close> matches the code points that have a decimal value.
\<close>

type_synonym unicode_decimal = "nat \<Rightarrow> nat option"

definition to_decimal :: "unicode_decimal \<Rightarrow> nat \<Rightarrow> nat option" where
  "to_decimal ud c =
     (if c < 128 then (if 48 \<le> c \<and> c \<le> 57 then Some (c - 48) else None)
      else if is_space c then None
      else (case ud c of Some d \<Rightarrow> if d < 10 then Some d else None | None \<Rightarrow> None))"







text \<open>
  \<open>int(s)\<close> for a \<open>str\<close>, base ten. The interpreter first maps every non-ASCII whitespace
  to a blank and every non-ASCII decimal digit to its ASCII digit (anything else
  non-ASCII to \<open>?\<close>), then reads: blanks of the C locale, an optional sign, digits with single
  underscores between them, blanks, and the end. The interpreter's configurable limit on
  the number of digits is not modelled.
\<close>

definition transform_decimal_and_space :: "unicode_decimal \<Rightarrow> pystr \<Rightarrow> pystr" where
  "transform_decimal_and_space ud s =
     map (\<lambda>c. if c < 127 then c
              else if is_space c then 32
              else (case to_decimal ud c of Some d \<Rightarrow> 48 + d | None \<Rightarrow> 63)) s"

definition c_isspace :: "nat \<Rightarrow> bool" where
  "c_isspace c \<longleftrightarrow> (9 \<le> c \<and> c \<le> 13) \<or> c = 32"

definition digit_or_underscore :: "nat \<Rightarrow> bool" where
  "digit_or_underscore c \<longleftrightarrow> (48 \<le> c \<and> c \<le> 57) \<or> c = 95"

fun double_underscore :: "pystr \<Rightarrow> bool" where
  "double_underscore (a # b # rest) = ((a = 95 \<and> b = 95) \<or> double_underscore (b # rest))"
| "double_underscore _ = False"

definition digits_value :: "pystr \<Rightarrow> nat" where
  "digits_value ds = foldl (\<lambda>acc c. 10 * acc + (c - 48)) 0 ds"

definition py_int :: "unicode_decimal \<Rightarrow> pystr \<Rightarrow> error + int" where
  "py_int ud u =
     (let s = dropWhile c_isspace (transform_decimal_and_space ud u);
          negative = (s \<noteq> [] \<and> hd s = 45);
          s = (if s \<noteq> [] \<and> (hd s = 43 \<or> hd s = 45) then tl s else s);
          body = takeWhile digit_or_underscore s;
          rest = dropWhile c_isspace (dropWhile digit_or_underscore s)
      in if body = [] \<or> hd body = 95 \<or> last body = 95 \<or> double_underscore body \<or> rest \<noteq> []
         then Inl ValueError
         else let n = int (digits_value (filter (\<lambda>c. c \<noteq> 95) body))
              in Inr (if negative then - n else n))"

section \<open>Transcript parser\<close>











section \<open>The transcript format, as specified\<close>







section \<open>Response parser\<close>

text \<open>
  Operations of the interpreter on the values of a decoded response. \<open>truthy\<close> is the
  truth value \<open>not\<close>, \<open>or\<close> and \<open>if\<close> take; the others raise as the interpreter does when
  the value has not the type the code expects.
\<close>

fun truthy :: "json \<Rightarrow> bool" where
  "truthy JNull = False"
| "truthy (JBool b) = b"
| "truthy (JInt n) = (n \<noteq> 0)"
| "truthy (JFloat x) = (x \<noteq> 0)"
| "truthy (JStr s) = (s \<noteq> [])"
| "truthy (JArr xs) = (xs \<noteq> [])"
| "truthy (JObj kvs) = (kvs \<noteq> [])"

text \<open>\<open>x[0]\<close>\<close>

fun subscript_0 :: "json \<Rightarrow> error + json" where
  "subscript_0 (JArr xs) = (case xs of [] \<Rightarrow> Inl IndexError | x # _ \<Rightarrow> Inr x)"
| "subscript_0 (JStr s) = (case s of [] \<Rightarrow> Inl IndexError | c # _ \<Rightarrow> Inr (JStr [c]))"
| "subscript_0 (JObj kvs) = Inl KeyError"
| "subscript_0 _ = Inl TypeError"

text \<open>\<open>x[key]\<close> for a string \<open>key\<close>\<close>

fun subscript_key :: "json \<Rightarrow> pystr \<Rightarrow> error + json" where
  "subscript_key (JObj kvs) key = (case map_of kvs key of None \<Rightarrow> Inl KeyError | Some v \<Rightarrow> Inr v)"
| "subscript_key _ key = Inl TypeError"

text \<open>\<open>x.get(key, default)\<close>; \<open>x.get(key)\<close> is \<open>x.get(key, None)\<close>.\<close>

fun py_get :: "json \<Rightarrow> pystr \<Rightarrow> json \<Rightarrow> error + json" where
  "py_get (JObj kvs) key dflt = (case map_of kvs key of None \<Rightarrow> Inr dflt | Some v \<Rightarrow> Inr v)"
| "py_get _ key dflt = Inl AttributeError"

text \<open>The values a \<open>for\<close> loop over \<open>x\<close> visits: a dict gives its keys, a string its characters.\<close>

fun py_iter :: "json \<Rightarrow> error + json list" where
  "py_iter (JArr xs) = Inr xs"
| "py_iter (JStr s) = Inr (map (\<lambda>c. JStr [c]) s)"
| "py_iter (JObj kvs) = Inr (map (\<lambda>kv. JStr (fst kv)) kvs)"
| "py_iter _ = Inl TypeError"

text \<open>\<open>s.split(sep)\<close> for a separator of one character.\<close>

fun py_split :: "nat \<Rightarrow> pystr \<Rightarrow> pystr list" where
  "py_split sep [] = [[]]"
| "py_split sep (c # cs) =
     (if c = sep then [] # py_split sep cs
      else (case py_split sep cs of [] \<Rightarrow> [[c]] | p # ps \<Rightarrow> (c # p) # ps))"

text \<open>The list comprehension \<open>[int(p) for p in parts]\<close>, which stops at the first error.\<close>

fun py_int_all :: "unicode_decimal \<Rightarrow> pystr list \<Rightarrow> error + int list" where
  "py_int_all ud [] = Inr []"
| "py_int_all ud (p # ps) =
     (case py_int ud p of
        Inl e \<Rightarrow> Inl e
      | Inr n \<Rightarrow> (case py_int_all ud ps of Inl e \<Rightarrow> Inl e | Inr ns \<Rightarrow> Inr (n # ns)))"

text \<open>
  \<open>_hms_to_seconds\<close> of \<open>llm_chapter_generator.py\<close>. Its argument is whatever the element
  holds; \<open>split\<close> is an attribute of strings only.
\<close>

definition hms_to_seconds_str :: "unicode_decimal \<Rightarrow> json \<Rightarrow> error + int" where
  "hms_to_seconds_str ud time_str =
     (case time_str of
        JStr s \<Rightarrow>
          (case py_int_all ud (py_split 58 s) of
             Inl e \<Rightarrow> Inl e
           | Inr parts \<Rightarrow>
               (case parts of
                  [minutes, seconds] \<Rightarrow> Inr (minutes * 60 + seconds)
                | [hours, minutes, seconds] \<Rightarrow> Inr (hours * 3600 + minutes * 60 + seconds)
                | _ \<Rightarrow> Inl ValueError))
      | _ \<Rightarrow> Inl AttributeError)"

text \<open>
  The body of the \<open>try\<close> in the loop of \<open>_parse_llm_response\<close>, for the element \<open>ch\<close> at
  position \<open>idx\<close>: the chapter appended, or the exception that the \<open>except\<close> clause logs.
\<close>

definition parse_row :: "unicode_decimal \<Rightarrow> nat \<Rightarrow> json \<Rightarrow> error + ChapterData" where
  "parse_row ud idx ch =
     (case py_get ch (ascii ''start'') (JStr (ascii ''00:00:00'')) of Inl e \<Rightarrow> Inl e | Inr start_v \<Rightarrow>
     (case hms_to_seconds_str ud start_v of Inl e \<Rightarrow> Inl e | Inr start \<Rightarrow>
     (case py_get ch (ascii ''end'') (JStr (ascii ''00:00:00'')) of Inl e \<Rightarrow> Inl e | Inr end_v \<Rightarrow>
     (case hms_to_seconds_str ud end_v of Inl e \<Rightarrow> Inl e | Inr end \<Rightarrow>
     (case py_get ch (ascii ''title'') (JStr (ascii ''Chapter '' @ py_str_int (int idx + 1))) of
        Inl e \<Rightarrow> Inl e | Inr title_v \<Rightarrow>
     (case py_get ch (ascii ''reason'') JNull of Inl e \<Rightarrow> Inl e | Inr reason \<Rightarrow>
     (case (if truthy reason then Inr reason else py_get ch (ascii ''summary'') JNull) of
        Inl e \<Rightarrow> Inl e | Inr summary_v \<Rightarrow>
     (case py_get ch (ascii ''index'') (JInt (int idx + 1)) of Inl e \<Rightarrow> Inl e | Inr order_v \<Rightarrow>
      Inr \<lparr>title = title_v,
           start_sec = start,
           end_sec = Some end,
           summary = summary_v,
           tags = None,
           source = ascii ''auto_llm'',
           confidence = None,
           order = order_v\<rparr>))))))))"

text \<open>
  What \<open>logging.error\<close> records: the log is the only state the parser touches, and it is
  passed through explicitly.
\<close>

datatype log_entry = Decode_failed | Row_failed error

type_synonym log = "log_entry list"

text \<open>The loop over \<open>enumerate(chapters_raw)\<close>.\<close>

fun parse_rows :: "unicode_decimal \<Rightarrow> nat \<Rightarrow> json list \<Rightarrow> log \<Rightarrow> ChapterData list \<times> log" where
  "parse_rows ud idx [] lg = ([], lg)"
| "parse_rows ud idx (ch # rest) lg =
     (case parse_row ud idx ch of
        Inl exc \<Rightarrow> parse_rows ud (Suc idx) rest (lg @ [Row_failed exc])
      | Inr chapter \<Rightarrow>
          (case parse_rows ud (Suc idx) rest lg of (chapters, lg') \<Rightarrow> (chapter # chapters, lg')))"

text \<open>
  \<open>_parse_llm_response\<close>. \<open>data\<close> is a dict or \<open>None\<close>, as the model client is annotated to
  return. \<open>json.loads\<close> is a parameter: the decoder gives the value of a JSON text, or
  nothing where it raises \<open>JSONDecodeError\<close>; it accepts a \<open>str\<close> only.
\<close>

definition parse_llm_response ::
  "unicode_decimal \<Rightarrow> (pystr \<Rightarrow> json option) \<Rightarrow> (pystr \<times> json) list option \<Rightarrow> log \<Rightarrow>
   (error + ChapterData list) \<times> log" where
  "parse_llm_response ud json_loads data lg =
     (case data of
        None \<Rightarrow> (Inr [], lg)
      | Some kvs \<Rightarrow>
          if kvs = [] \<or> map_of kvs (ascii ''choices'') = None \<or>
             \<not> truthy (the (map_of kvs (ascii ''choices'')))
          then (Inr [], lg)
          else
            (case subscript_0 (the (map_of kvs (ascii ''choices''))) of Inl e \<Rightarrow> (Inl e, lg) | Inr choice \<Rightarrow>
            (case subscript_key choice (ascii ''message'') of Inl e \<Rightarrow> (Inl e, lg) | Inr message \<Rightarrow>
            (case py_get message (ascii ''content'') (JStr []) of Inl e \<Rightarrow> (Inl e, lg) | Inr content \<Rightarrow>
            (case content of
               JStr s \<Rightarrow>
                 (case json_loads s of
                    None \<Rightarrow> (Inr [], lg @ [Decode_failed])
                  | Some parsed \<Rightarrow>
                      (case py_get parsed (ascii ''chapters'') (JArr []) of Inl e \<Rightarrow> (Inl e, lg) | Inr chapters_raw \<Rightarrow>
                      (case py_iter chapters_raw of Inl e \<Rightarrow> (Inl e, lg) | Inr rows \<Rightarrow>
                        (case parse_rows ud 0 rows lg of (chapters, lg') \<Rightarrow> (Inr chapters, lg')))))
             | _ \<Rightarrow> (Inl TypeError, lg))))))"

section \<open>Orchestrator\<close>

text \<open>
  \<open>PROMPT_TEMPLATE\<close>, as code points: the text before the placeholder
  \<open>{VIDEO_DURATION_MINUTES}\<close>, the text between the two placeholders, and the text after
  \<open>{TRANSCRIPT_TEXT}\<close>, with the doubled braces of the format string written once.
\<close>

definition PROMPT_TEMPLATE_head :: pystr where
  "PROMPT_TEMPLATE_head =
    [20320, 29616, 22312, 25198, 28436, 19968, 21517, 38750, 24120, 25026, 20013, 25991, 36130,
      32463, 47, 32842, 22825, 30452, 25773, 33410, 22863, 30340, 12300, 38271, 35270, 39057,
      21098, 36753, 32534, 36753, 32, 43, 32, 25991, 26696, 24635, 30417, 12301, 65292, 35201,
      24110, 20027, 25773, 32473, 19968, 25972, 22330, 30452, 25773, 22238, 25918, 20570,
      12304, 20154, 31867, 39118, 26684, 12305, 30340, 31456, 33410, 21010, 20998, 12290, 10,
      10, 35270, 39057, 24635, 26102, 38271, 32422, 32]"

definition PROMPT_TEMPLATE_middle :: pystr where
  "PROMPT_TEMPLATE_middle =
    [32, 20998, 38047, 12290, 10, 10, 35831, 20005, 26684, 36755, 20986, 32, 74, 83, 79, 78,
      65288, 24517, 39035, 31526, 21512, 19979, 38754, 35268, 21017, 65289, 65306, 10, 49,
      65289, 24517, 39035, 36755, 20986, 32, 49, 48, 32, 20010, 31456, 33410, 65292, 105, 110,
      100, 101, 120, 32, 20174, 32, 49, 32, 36882, 22686, 12290, 10, 50, 65289, 31456, 33410,
      24517, 39035, 25353, 26102, 38388, 39034, 24207, 12304, 36830, 32493, 35206, 30422,
      12305, 25972, 27573, 30452, 25773, 65292, 19981, 20801, 35768, 20986, 29616, 26102,
      38388, 31354, 26723, 65288, 103, 97, 112, 65289, 12290, 10, 32, 32, 32, 45, 32, 31532,
      32, 49, 32, 31456, 32, 115, 116, 97, 114, 116, 32, 24517, 39035, 26159, 30452, 25773,
      24320, 22836, 38468, 36817, 30340, 19968, 20010, 32, 116, 114, 97, 110, 115, 99, 114,
      105, 112, 116, 32, 26102, 38388, 25139, 12290, 10, 32, 32, 32, 45, 32, 23545, 20110, 32,
      49, 126, 57, 32, 31456, 65306, 31532, 32, 105, 32, 31456, 30340, 32, 101, 110, 100, 32,
      24517, 39035, 31561, 20110, 31532, 32, 105, 43, 49, 32, 31456, 30340, 32, 115, 116, 97,
      114, 116, 65288, 101, 110, 100, 32, 61, 32, 110, 101, 120, 116, 95, 115, 116, 97, 114,
      116, 65289, 12290, 10, 32, 32, 32, 45, 32, 31532, 32, 49, 48, 32, 31456, 32, 101, 110,
      100, 32, 24517, 39035, 26159, 30452, 25773, 32467, 26463, 38468, 36817, 30340, 19968,
      20010, 32, 116, 114, 97, 110, 115, 99, 114, 105, 112, 116, 32, 26102, 38388, 25139,
      12290, 10, 51, 65289, 115, 116, 97, 114, 116, 32, 21644, 32, 101, 110, 100, 32, 30340,
      26102, 38388, 25139, 35831, 12304, 20248, 20808, 47, 23613, 37327, 20005, 26684, 20351,
      29992, 32, 116, 114, 97, 110, 115, 99, 114, 105, 112, 116, 32, 20013, 24050, 32463,
      20986, 29616, 36807, 30340, 26102, 38388, 25139, 12305, 65307, 19981, 35201, 34394,
      26500, 19981, 23384, 22312, 30340, 26102, 38388, 28857, 12290, 10, 52, 65289, 19981,
      35201, 22343, 20998, 26102, 38388, 12290, 27599, 31456, 26631, 39064, 60, 61, 49, 56,
      27721, 23383, 65292, 114, 101, 97, 115, 111, 110, 60, 61, 52, 48, 23383, 12290, 10, 10,
      36755, 20986, 32, 74, 83, 79, 78, 32, 26684, 24335, 22914, 19979, 65306, 10, 123, 10, 32,
      32, 34, 99, 104, 97, 112, 116, 101, 114, 115, 34, 58, 32, 91, 10, 32, 32, 32, 32, 123,
      10, 32, 32, 32, 32, 32, 32, 34, 105, 110, 100, 101, 120, 34, 58, 32, 49, 44, 10, 32, 32,
      32, 32, 32, 32, 34, 115, 116, 97, 114, 116, 34, 58, 32, 34, 72, 72, 58, 77, 77, 58, 83,
      83, 34, 44, 10, 32, 32, 32, 32, 32, 32, 34, 101, 110, 100, 34, 58, 32, 34, 72, 72, 58,
      77, 77, 58, 83, 83, 34, 44, 10, 32, 32, 32, 32, 32, 32, 34, 116, 105, 116, 108, 101, 34,
      58, 32, 34, 31456, 33410, 26631, 39064, 65288, 19981, 36229, 36807, 49, 56, 20010, 27721,
      23383, 65289, 34, 44, 10, 32, 32, 32, 32, 32, 32, 34, 114, 101, 97, 115, 111, 110, 34,
      58, 32, 34, 31616, 35201, 35828, 26126, 36825, 19968, 31456, 30340, 32467, 26500, 47,
      36923, 36753, 20316, 29992, 65288, 19981, 36229, 36807, 52, 48, 23383, 65289, 34, 10, 32,
      32, 32, 32, 125, 10, 32, 32, 93, 10, 125, 10, 10, 26631, 39064, 39118, 26684, 21442,
      32771, 65306, 10, 45, 32, 24320, 22330, 32, 47, 32, 27491, 39064, 32, 47, 32, 23567,
      32467, 32, 47, 32, 24635, 32467, 32, 47, 32, 38182, 22218, 32, 47, 32, 25910, 30424, 10,
      45, 32, 27491, 39064, 24320, 22987, 65306, 50, 48, 50, 54, 26032, 36235, 21183, 10, 45,
      32, 36870, 22825, 83, 67, 20511, 23631, 36947, 27465, 10, 45, 32, 19979, 21608, 38182,
      22218, 65306, 20026, 20160, 20040, 27874, 21160, 21152, 22823, 10, 10, 19979, 38754,
      26159, 32, 116, 114, 97, 110, 115, 99, 114, 105, 112, 116, 65288, 36880, 23383, 31295,
      65292, 24102, 26102, 38388, 25139, 65289, 65306, 10]"

definition PROMPT_TEMPLATE_tail :: pystr where
  "PROMPT_TEMPLATE_tail =
    [10]"

text \<open>\<open>sep.join(xs)\<close> and \<open>_build_transcript_text\<close>.\<close>

fun py_join :: "pystr \<Rightarrow> pystr list \<Rightarrow> pystr" where
  "py_join sep [] = []"
| "py_join sep [x] = x"
| "py_join sep (x # y # ys) = x @ sep @ py_join sep (y # ys)"

definition build_transcript_text :: "TranscriptLine list \<Rightarrow> pystr" where
  "build_transcript_text transcript_lines =
     (let sorted_lines = sort_key TranscriptLine.start_sec transcript_lines;
          segments = map (\<lambda>line. ascii ''['' @ format_seconds (TranscriptLine.start_sec line) @
                                   ascii '' --> '' @ format_seconds (end_or_start line) @
                                   ascii ''] '' @ line_text line) sorted_lines
      in py_join [10] segments)"

text \<open>
  The key of the final sort, \<open>(c.order or 0, c.start_sec)\<close>, and \<open>sorted\<close> on it. Tuples
  compare by their first components unless these are equal. Numbers (\<open>bool\<close>, \<open>int\<close>,
  \<open>float\<close>) compare by value and strings by code points; between a number and a string,
  and for \<open>None\<close> and dicts, \<open>\<open><\<close>\<close> raises \<open>TypeError\<close>, and a sort of two or more
  chapters whose keys are not all numbers or all strings meets such a pair. An \<open>order\<close>
  that is a non-empty JSON array is taken to be incomparable as well, although arrays of
  comparable elements do compare. \<open>sorted\<close> is stable, as \<open>sort_key\<close> is.
\<close>

definition order_or_0 :: "ChapterData \<Rightarrow> json" where
  "order_or_0 c = (if truthy (order c) then order c else JInt 0)"

fun number_value :: "json \<Rightarrow> rat option" where
  "number_value (JBool b) = Some (if b then 1 else 0)"
| "number_value (JInt n) = Some (of_int n)"
| "number_value (JFloat x) = Some x"
| "number_value _ = None"

fun string_value :: "json \<Rightarrow> pystr option" where
  "string_value (JStr s) = Some s"
| "string_value _ = None"

definition sorted_by_order_and_start :: "ChapterData list \<Rightarrow> error + ChapterData list" where
  "sorted_by_order_and_start cs =
     (if length cs \<le> 1 then Inr cs
      else if \<forall>c\<in>set cs. number_value (order_or_0 c) \<noteq> None
      then Inr (sort_key (\<lambda>c. (the (number_value (order_or_0 c)), ChapterData.start_sec c)) cs)
      else if \<forall>c\<in>set cs. string_value (order_or_0 c) \<noteq> None
      then Inr (sort_key (\<lambda>c. (the (string_value (order_or_0 c)), ChapterData.start_sec c)) cs)
      else Inl TypeError)"

text \<open>The slice \<open>xs[:k]\<close>: a negative \<open>k\<close> counts from the end.\<close>

definition slice_to :: "'a list \<Rightarrow> int \<Rightarrow> 'a list" where
  "slice_to xs k = (if k < 0 then take (nat (int (length xs) + k)) xs else take (nat k) xs)"

text \<open>
  \<open>generate_chapters_from_transcript\<close>. The model client \<open>_call_volcengine_chat\<close> is the
  parameter \<open>call_volcengine_chat\<close>: for a prompt it gives the decoded response, or \<open>None\<close>
  when no key is configured or the request failed. \<open>max_chapters\<close> is \<open>None\<close> when the
  caller omits the argument, which then is 10.
\<close>

definition generate_chapters_from_transcript ::
  "unicode_decimal \<Rightarrow> (pystr \<Rightarrow> json option) \<Rightarrow> (pystr \<Rightarrow> (pystr \<times> json) list option) \<Rightarrow>
   TranscriptLine list \<Rightarrow> int option \<Rightarrow> log \<Rightarrow> (error + ChapterData list) \<times> log" where
  "generate_chapters_from_transcript ud json_loads call_volcengine_chat transcript_lines
       max_chapters_arg lg =
     (let max_chapters = (case max_chapters_arg of None \<Rightarrow> 10 | Some m \<Rightarrow> m)
      in if transcript_lines = [] then (Inr [], lg)
         else
           let sorted_lines = sort_key TranscriptLine.start_sec transcript_lines
           in (case py_last sorted_lines of
                 Inl e \<Rightarrow> (Inl e, lg)
               | Inr lst \<Rightarrow>
                   (let duration_sec = line_duration lst;
                        duration_minutes = max 1 (duration_sec div 60);
                        transcript_text = build_transcript_text sorted_lines;
                        prompt = PROMPT_TEMPLATE_head @ py_str_int duration_minutes @
                                 PROMPT_TEMPLATE_middle @ transcript_text @ PROMPT_TEMPLATE_tail;
                        api_response = call_volcengine_chat prompt;
                        parsed = (if api_response = None \<or> api_response = Some []
                                  then (Inr [], lg)
                                  else parse_llm_response ud json_loads api_response lg)
                    in (case parsed of
                          (Inl e, lg') \<Rightarrow> (Inl e, lg')
                        | (Inr chapters, lg') \<Rightarrow>
                            if chapters \<noteq> [] then
                              (case snap_chapters_to_transcript chapters sorted_lines of
                                 Inl e \<Rightarrow> (Inl e, lg')
                               | Inr chapters_snapped \<Rightarrow>
                                   (case sorted_by_order_and_start chapters_snapped of
                                      Inl e \<Rightarrow> (Inl e, lg')
                                    | Inr chapters_sorted \<Rightarrow>
                                        (Inr (slice_to chapters_sorted
                                                (if max_chapters = 0 then 10 else max_chapters)),
                                         lg')))
                            else (fallback_stub transcript_lines max_chapters, lg')))))"

section \<open>Example inputs\<close>

text \<open>
  The transcript of the spec's walk-throughs: three lines with starts 0, 10, 20 and ends
  10, 20, 30, and the candidate the model returns there, from 00:00:05 to 00:00:15.
\<close>

definition example_lines :: "TranscriptLine list" where
  "example_lines =
     [\<lparr>TranscriptLine.start_sec = 0, end_sec = Some 10, line_text = ascii ''alpha''\<rparr>,
      \<lparr>TranscriptLine.start_sec = 10, end_sec = Some 20, line_text = ascii ''beta''\<rparr>,
      \<lparr>TranscriptLine.start_sec = 20, end_sec = Some 30, line_text = ascii ''gamma''\<rparr>]"

definition example_candidate :: "int \<Rightarrow> int \<Rightarrow> ChapterData" where
  "example_candidate s e =
     \<lparr>title = JStr (ascii ''T''), start_sec = s, end_sec = Some e, summary = JNull,
      tags = None, source = ascii ''auto_llm'', confidence = None, order = JInt 1\<rparr>"


text \<open>
  A response of the model client with the given text as the content of its first choice,
  and a decoder that agrees with \<open>json.loads\<close> on the two contents used below: the
  chapter list of the walk-through, and a \<open>chapters\<close> field that is \<open>null\<close>.
\<close>

definition chat_response :: "pystr \<Rightarrow> (pystr \<times> json) list option" where
  "chat_response content =
     Some [(ascii ''choices'',
            JArr [JObj [(ascii ''message'', JObj [(ascii ''content'', JStr content)])]])]"

definition example_content :: pystr where
  \<open>example_content =
     ascii ''{"chapters":[{"index":1,"start":"00:00:05","end":"00:00:15","title":"T"}]}''\<close>

definition null_chapters_content :: pystr where
  \<open>null_chapters_content = ascii ''{"chapters": null}''\<close>

definition example_json_loads :: "pystr \<Rightarrow> json option" where
  "example_json_loads s =
     (if s = example_content
      then Some (JObj [(ascii ''chapters'',
                   JArr [JObj [(ascii ''index'', JInt 1),
                               (ascii ''start'', JStr (ascii ''00:00:05'')),
                               (ascii ''end'', JStr (ascii ''00:00:15'')),
                               (ascii ''title'', JStr (ascii ''T''))]])])
      else if s = null_chapters_content then Some (JObj [(ascii ''chapters'', JNull)])
      else None)"

section \<open>Single-chapter regeneration: results\<close>

lemma context_line_first:
  "i < length ls \<Longrightarrow> n \<le> TranscriptLine.start_sec (ls ! i) \<Longrightarrow>
   \<forall>j<i. TranscriptLine.start_sec (ls ! j) < n \<Longrightarrow> context_line ls n = Some (ls ! i)"
proof (induction ls arbitrary: i)
  case Nil
  then show ?case by simp
next
  case (Cons l ls)
  show ?case
  proof (cases i)
    case 0
    with Cons.prems show ?thesis by simp
  next
    case (Suc k)
    with Cons.prems have "TranscriptLine.start_sec l < n" by auto
    moreover have "\<forall>j<k. TranscriptLine.start_sec (ls ! j) < n"
    proof (intro allI impI)
      fix j assume "j < k"
      then have "Suc j < i" using Suc by simp
      with Cons.prems(3) have "TranscriptLine.start_sec ((l # ls) ! Suc j) < n" by blast
      then show "TranscriptLine.start_sec (ls ! j) < n" by simp
    qed
    then have "context_line ls n = Some (ls ! k)"
      using Cons.IH [of k] Cons.prems(1,2) Suc by simp
    ultimately show ?thesis using Suc by simp
  qed
qed

lemma context_line_none:
  "\<forall>l\<in>set ls. TranscriptLine.start_sec l < n \<Longrightarrow> context_line ls n = None"
  by (induction ls) auto

lemma take_placeholder: "take 120 (ascii ''No nearby transcript context.'') = ascii ''No nearby transcript context.''"
  by (simp add: ascii_def)

text \<open>
  C6. \<open>regenerate_single_chapter\<close> returns one chapter with \<open>start_sec = new_start_sec\<close>,
  \<open>source = "ai_edit"\<close>, \<open>confidence = 0.6\<close>, \<open>end_sec = None\<close> and \<open>order = None\<close>. Its
  summary quotes the first 120 characters of the text of the first line, in the order
  supplied, whose start is at least \<open>new_start_sec\<close>, and the placeholder when there is no
  such line. With \<open>new_start_sec = 15\<close> and lines starting at 0, 10 and 20, the summary
  quotes the line starting at 20.
\<close>

theorem regenerate_single_chapter_result:
  "(let c = regenerate_single_chapter ls n t s in
     ChapterData.start_sec c = n \<and> source c = ascii ''ai_edit'' \<and> confidence c = Some (6 / 10) \<and>
     ChapterData.end_sec c = None \<and> order c = JNull \<and>
     (\<forall>i<length ls. n \<le> TranscriptLine.start_sec (ls ! i) \<longrightarrow>
         (\<forall>j<i. TranscriptLine.start_sec (ls ! j) < n) \<longrightarrow>
         summary c = JStr (ascii ''Auto-updated using nearby transcript: '' @ take 120 (line_text (ls ! i)))) \<and>
     ((\<forall>l\<in>set ls. TranscriptLine.start_sec l < n) \<longrightarrow>
         summary c = JStr (ascii ''Auto-updated using nearby transcript: '' @ ascii ''No nearby transcript context.''))) \<and>
   summary (regenerate_single_chapter
        [\<lparr>TranscriptLine.start_sec = 0, end_sec = e0, line_text = t0\<rparr>,
         \<lparr>TranscriptLine.start_sec = 10, end_sec = e1, line_text = t1\<rparr>,
         \<lparr>TranscriptLine.start_sec = 20, end_sec = e2, line_text = t2\<rparr>] 15 t s)
     = JStr (ascii ''Auto-updated using nearby transcript: '' @ take 120 t2)"
proof -
  have a: "\<And>i. i < length ls \<Longrightarrow> n \<le> TranscriptLine.start_sec (ls ! i) \<Longrightarrow>
         (\<forall>j<i. TranscriptLine.start_sec (ls ! j) < n) \<Longrightarrow>
         summary (regenerate_single_chapter ls n t s) = JStr (ascii ''Auto-updated using nearby transcript: '' @ take 120 (line_text (ls ! i)))"
    by (simp add: regenerate_single_chapter_def context_line_first)
  have b: "(\<forall>l\<in>set ls. TranscriptLine.start_sec l < n) \<Longrightarrow>
         summary (regenerate_single_chapter ls n t s) = JStr (ascii ''Auto-updated using nearby transcript: '' @ ascii ''No nearby transcript context.'')"
    by (simp add: regenerate_single_chapter_def context_line_none take_placeholder)
  have c: "ChapterData.start_sec (regenerate_single_chapter ls n t s) = n"
     "source (regenerate_single_chapter ls n t s) = ascii ''ai_edit''"
     "confidence (regenerate_single_chapter ls n t s) = Some (6 / 10)"
     "ChapterData.end_sec (regenerate_single_chapter ls n t s) = None"
     "order (regenerate_single_chapter ls n t s) = JNull"
    by (simp_all add: regenerate_single_chapter_def Let_def)
  have d: "summary (regenerate_single_chapter
        [\<lparr>TranscriptLine.start_sec = 0, end_sec = e0, line_text = t0\<rparr>,
         \<lparr>TranscriptLine.start_sec = 10, end_sec = e1, line_text = t1\<rparr>,
         \<lparr>TranscriptLine.start_sec = 20, end_sec = e2, line_text = t2\<rparr>] 15 t s)
     = JStr (ascii ''Auto-updated using nearby transcript: '' @ take 120 t2)"
    by (simp add: regenerate_single_chapter_def)
  show ?thesis unfolding Let_def using a b c d by blast
qed

theorem regenerate_single_chapter_result_witness:
  "(2::nat) < length example_lines \<and> 15 \<le> TranscriptLine.start_sec (example_lines ! 2) \<and>
   TranscriptLine.start_sec (example_lines ! 0) < 15 \<and>
   TranscriptLine.start_sec (example_lines ! 1) < 15 \<and>
   summary (regenerate_single_chapter example_lines 15 (ascii ''Old'') None) =
     JStr (ascii ''Auto-updated using nearby transcript: gamma'')"
  using regenerate_single_chapter_result [of example_lines 15 "ascii ''Old''" None]
  by (simp add: example_lines_def regenerate_single_chapter_def ascii_def)

text \<open>
  C10. The chapter \<open>regenerate_single_chapter\<close> returns does not depend on
  \<open>existing_title\<close> and \<open>existing_summary\<close>: two calls that differ in these arguments only
  return the same chapter.
\<close>

theorem regenerate_single_chapter_independent:
  "regenerate_single_chapter ls n t1 s1 = regenerate_single_chapter ls n t2 s2"
  by (simp add: regenerate_single_chapter_def)


section \<open>Snapping: results\<close>

lemma foldl_min_Min: "foldl min x xs = Min (set (x # xs))"
proof (induction xs arbitrary: x)
  case Nil
  then show ?case by simp
next
  case (Cons y ys)
  have "foldl min x (y # ys) = Min (set (min x y # ys))" using Cons.IH by simp
  also have "\<dots> = Min (set (x # y # ys))"
    by (cases ys) (simp_all add: min.assoc)
  finally show ?case .
qed

lemma foldl_max_Max: "foldl max x xs = Max (set (x # xs))"
proof (induction xs arbitrary: x)
  case Nil
  then show ?case by simp
next
  case (Cons y ys)
  have "foldl max x (y # ys) = Max (set (max x y # ys))" using Cons.IH by simp
  also have "\<dots> = Max (set (x # y # ys))"
    by (cases ys) (simp_all add: max.assoc)
  finally show ?case .
qed

lemma py_min_Min: "xs \<noteq> [] \<Longrightarrow> py_min xs = Inr (Min (set xs))"
  by (cases xs) (simp_all add: py_min_def foldl_min_Min del: set_simps)

lemma py_max_Max: "xs \<noteq> [] \<Longrightarrow> py_max xs = Inr (Max (set xs))"
  by (cases xs) (simp_all add: py_max_def foldl_max_Max del: set_simps)



lemma snap_total:
  "transcript_lines \<noteq> [] \<Longrightarrow> chapters \<noteq> [] \<Longrightarrow>
   snap_chapters_to_transcript chapters transcript_lines =
     Inr (map (snap_one (map TranscriptLine.start_sec transcript_lines)
                        (map end_or_start transcript_lines)
                        (Min (TranscriptLine.start_sec ` set transcript_lines))
                        (Max (end_or_start ` set transcript_lines))) chapters)"
  by (simp add: snap_chapters_to_transcript_def py_min_Min py_max_Max Let_def)

lemma snap_empty:
  "transcript_lines = [] \<or> chapters = [] \<Longrightarrow>
   snap_chapters_to_transcript chapters transcript_lines = Inr chapters"
  by (auto simp add: snap_chapters_to_transcript_def)


lemma snap_one_frame:
  "title (snap_one ss es lo hi ch) = title ch \<and> summary (snap_one ss es lo hi ch) = summary ch \<and>
   tags (snap_one ss es lo hi ch) = tags ch \<and> source (snap_one ss es lo hi ch) = source ch \<and>
   confidence (snap_one ss es lo hi ch) = confidence ch \<and> order (snap_one ss es lo hi ch) = order ch"
  by (simp add: snap_one_def Let_def)

text \<open>
  C7. The snapper does not raise, returns one chapter for each candidate, in order, and
  rewrites \<open>start_sec\<close> and \<open>end_sec\<close> only: title, summary, tags, source, confidence and
  order of every output chapter are those of the candidate at the same position. When the
  candidate list or the line list is empty, the candidates are returned unchanged.
\<close>

theorem snap_frame:
  "\<exists>out. snap_chapters_to_transcript chapters transcript_lines = Inr out \<and>
      length out = length chapters \<and>
      (\<forall>i<length chapters.
          title (out ! i) = title (chapters ! i) \<and> summary (out ! i) = summary (chapters ! i) \<and>
          tags (out ! i) = tags (chapters ! i) \<and> source (out ! i) = source (chapters ! i) \<and>
          confidence (out ! i) = confidence (chapters ! i) \<and> order (out ! i) = order (chapters ! i)) \<and>
      (chapters = [] \<or> transcript_lines = [] \<longrightarrow> out = chapters)"
proof (cases "transcript_lines = [] \<or> chapters = []")
  case True
  then show ?thesis using snap_empty [of transcript_lines chapters] by auto
next
  case False
  then show ?thesis using snap_total [of transcript_lines chapters]
    by (simp add: snap_one_frame)
qed

theorem snap_frame_witness:
  "(0::nat) < length [example_candidate 5 15] \<and>
   snap_chapters_to_transcript [example_candidate 5 15] example_lines =
     Inr [\<lparr>title = JStr (ascii ''T''), start_sec = 0, end_sec = Some 10, summary = JNull,
           tags = None, source = ascii ''auto_llm'', confidence = None, order = JInt 1\<rparr>] \<and>
   snap_chapters_to_transcript [example_candidate 5 15] [] = Inr [example_candidate 5 15]"
  using snap_frame [of "[example_candidate 5 15]" example_lines]
    snap_frame [of "[example_candidate 5 15]" "[]"]
  by (simp add: example_lines_def example_candidate_def snap_chapters_to_transcript_def
      snap_one_def py_min_def py_max_def nearest_time_def min_key_def end_or_start_def)






section \<open>Fallback generator: results\<close>

lemma py_last_last: "xs \<noteq> [] \<Longrightarrow> py_last xs = Inr (last xs)"
  by (induction xs rule: rev_induct) (simp_all add: py_last_def)

lemma sorted_le_last: "sorted xs \<Longrightarrow> x \<in> set xs \<Longrightarrow> x \<le> last (xs :: int list)"
  by (induction xs) auto

lemma mult_div_le_int: "0 < (n::int) \<Longrightarrow> n * (d div n) \<le> d"
proof -
  assume "0 < n"
  then have "0 \<le> d mod n" by simp
  moreover have "n * (d div n) + d mod n = d" by simp
  ultimately show ?thesis by linarith
qed

lemma last_sort_key_max:
  fixes f :: "'a \<Rightarrow> int"
  assumes "xs \<noteq> []"
  shows "last (sort_key f xs) \<in> set xs \<and> (\<forall>x\<in>set xs. f x \<le> f (last (sort_key f xs)))"
proof -
  let ?ys = "sort_key f xs"
  have ne: "?ys \<noteq> []" using assms by (metis length_0_conv length_sort)
  have mem: "last ?ys \<in> set xs" using last_in_set [OF ne] by simp
  have "\<forall>x\<in>set xs. f x \<le> f (last ?ys)"
  proof
    fix x assume "x \<in> set xs"
    then have "f x \<in> set (map f ?ys)" by simp
    moreover have "sorted (map f ?ys)" by simp
    ultimately have "f x \<le> last (map f ?ys)" using sorted_le_last by blast
    then show "f x \<le> f (last ?ys)" using ne by (simp add: last_map)
  qed
  with mem show ?thesis by simp
qed

lemma line_duration_end_or_start:
  "0 \<le> TranscriptLine.start_sec x \<Longrightarrow> TranscriptLine.start_sec x \<le> end_or_start x \<Longrightarrow>
   line_duration x = end_or_start x"
  by (auto simp add: line_duration_def end_or_start_def split: option.splits)

lemma length_py_range: "length (py_range n) = nat n"
  by (simp add: py_range_def)

lemma nth_py_range: "i < nat n \<Longrightarrow> py_range n ! i = int i"
  by (simp add: py_range_def)

lemma fallback_stub_eq:
  assumes "transcript_lines \<noteq> []" "max_chapters \<noteq> 0"
  shows "fallback_stub transcript_lines max_chapters =
     Inr (map (stub_chapter
                 (max (line_duration (last (sort_key TranscriptLine.start_sec transcript_lines))
                        div min max_chapters 10) 1)
                 (line_duration (last (sort_key TranscriptLine.start_sec transcript_lines))))
              (py_range (min max_chapters 10)))"
proof -
  have ne: "sort_key TranscriptLine.start_sec transcript_lines \<noteq> []"
    using assms(1) by (metis length_0_conv length_sort)
  have nz: "min max_chapters 10 \<noteq> 0" using assms(2) by simp
  show ?thesis
    using assms nz by (simp add: fallback_stub_def py_last_last [OF ne] py_floordiv_def Let_def)
qed

lemma step_bound:
  fixes d n :: int
  assumes "1 \<le> n" "n - 1 \<le> d" "0 \<le> k" "k \<le> n - 1"
  shows "k * max (d div n) 1 \<le> d"
proof (cases "n \<le> d")
  case True
  then have q: "1 \<le> d div n" using assms(1) pos_imp_zdiv_pos_iff [of n d] by simp
  have "k * (d div n) \<le> n * (d div n)" using assms q by (intro mult_right_mono) simp_all
  also have "\<dots> \<le> d" using assms(1) by (simp add: mult_div_le_int)
  finally show ?thesis using q by (simp add: max_def)
next
  case False
  then have "d = n - 1" using assms by simp
  moreover have "d div n = 0" using False assms by (simp add: div_pos_pos_trivial)
  ultimately show ?thesis using assms by simp
qed

lemma step_cover:
  fixes d n :: int
  assumes "1 \<le> n" "n dvd d \<or> d \<le> n"
  shows "d \<le> n * max (d div n) 1"
proof -
  have s1: "1 \<le> max (d div n) 1" by simp
  from assms(2) show ?thesis
  proof
    assume "n dvd d"
    then have "n * (d div n) = d" by simp
    moreover have "n * (d div n) \<le> n * max (d div n) 1"
      using assms(1) by (intro mult_left_mono) simp_all
    ultimately show ?thesis by simp
  next
    assume "d \<le> n"
    moreover have "n * 1 \<le> n * max (d div n) 1" using assms(1) by (intro mult_left_mono) simp_all
    ultimately show ?thesis by simp
  qed
qed


lemma stub_chapter_fields:
  "ChapterData.start_sec (stub_chapter step d i) = i * step"
  "ChapterData.end_sec (stub_chapter step d i) = Some (min ((i + 1) * step) d)"
  "confidence (stub_chapter step d i) = Some (5 / 10)"
  "source (stub_chapter step d i) = ascii ''auto_stub''"
  "order (stub_chapter step d i) = JInt (i + 1)"
  by (simp_all add: stub_chapter_def Let_def)

text \<open>
  C3, as the code has it. For a non-empty line list and \<open>max_chapters \<ge> 1\<close> the fallback
  generator does not raise and returns exactly \<open>min(max_chapters, 10)\<close> chapters. With
  \<open>duration\<close> taken from the last line by start (its end-or-start, for a line with
  \<open>0 \<le> start \<le> end\<close>) and \<open>step = max(duration // chapter_count, 1)\<close>, chapter \<open>i\<close> spans
  \<open>[i * step, min((i + 1) * step, duration)]\<close> with confidence 0.5 and source
  \<open>"auto_stub"\<close>. The first chapter starts at 0. When \<open>duration \<ge> chapter_count - 1\<close> each
  chapter ends where the next one starts and none ends before it starts; when
  \<open>chapter_count\<close> divides \<open>duration\<close>, or \<open>duration \<le> chapter_count\<close>, the last chapter ends
  at \<open>duration\<close>.
\<close>

theorem fallback_stub_spans:
  assumes "transcript_lines \<noteq> []" and "1 \<le> max_chapters"
  shows "\<exists>out. fallback_stub transcript_lines max_chapters = Inr out \<and>
    (let lst = last (sort_key TranscriptLine.start_sec transcript_lines);
         duration = line_duration lst;
         chapter_count = min max_chapters 10;
         step = max (duration div chapter_count) 1
     in lst \<in> set transcript_lines \<and>
        (\<forall>l\<in>set transcript_lines. TranscriptLine.start_sec l \<le> TranscriptLine.start_sec lst) \<and>
        (0 \<le> TranscriptLine.start_sec lst \<and> TranscriptLine.start_sec lst \<le> end_or_start lst
           \<longrightarrow> duration = end_or_start lst) \<and>
        int (length out) = chapter_count \<and>
        (\<forall>i<length out.
           ChapterData.start_sec (out ! i) = int i * step \<and>
           ChapterData.end_sec (out ! i) = Some (min ((int i + 1) * step) duration) \<and>
           confidence (out ! i) = Some (5 / 10) \<and>
           source (out ! i) = ascii ''auto_stub'') \<and>
        ChapterData.start_sec (out ! 0) = 0 \<and>
        (chapter_count - 1 \<le> duration \<longrightarrow>
           (\<forall>i. Suc i < length out \<longrightarrow>
              ChapterData.end_sec (out ! i) = Some (ChapterData.start_sec (out ! Suc i))) \<and>
           (\<forall>i<length out. \<exists>e. ChapterData.end_sec (out ! i) = Some e \<and>
              ChapterData.start_sec (out ! i) \<le> e)) \<and>
        (chapter_count dvd duration \<or> duration \<le> chapter_count \<longrightarrow>
           ChapterData.end_sec (last out) = Some duration))"
proof -
  define lst where "lst = last (sort_key TranscriptLine.start_sec transcript_lines)"
  define d where "d = line_duration lst"
  define n where "n = min max_chapters 10"
  define step where "step = max (d div n) 1"
  define out where "out = map (stub_chapter step d) (py_range n)"
  have n1: "1 \<le> n" using assms(2) by (simp add: n_def)
  have step1: "1 \<le> step" by (simp add: step_def)
  have res: "fallback_stub transcript_lines max_chapters = Inr out"
    using fallback_stub_eq [of transcript_lines max_chapters] assms
    by (simp add: out_def step_def d_def n_def lst_def)
  have len: "length out = nat n" by (simp add: out_def length_py_range)
  have nth: "out ! i = stub_chapter step d (int i)" if "i < length out" for i
    using that by (simp add: out_def length_py_range nth_py_range)
  have lst: "lst \<in> set transcript_lines"
      "\<forall>l\<in>set transcript_lines. TranscriptLine.start_sec l \<le> TranscriptLine.start_sec lst"
    using last_sort_key_max [OF assms(1), of TranscriptLine.start_sec] by (simp_all add: lst_def)
  have dur: "0 \<le> TranscriptLine.start_sec lst \<and> TranscriptLine.start_sec lst \<le> end_or_start lst
           \<longrightarrow> d = end_or_start lst"
    by (simp add: d_def line_duration_end_or_start)
  have fields: "\<forall>i<length out.
           ChapterData.start_sec (out ! i) = int i * step \<and>
           ChapterData.end_sec (out ! i) = Some (min ((int i + 1) * step) d) \<and>
           confidence (out ! i) = Some (5 / 10) \<and>
           source (out ! i) = ascii ''auto_stub''"
    by (simp add: nth stub_chapter_fields)
  have first: "ChapterData.start_sec (out ! 0) = 0"
    using nth [of 0] n1 len by (simp add: stub_chapter_fields)
  have contig: "ChapterData.end_sec (out ! i) = Some (ChapterData.start_sec (out ! Suc i))"
    if "n - 1 \<le> d" "Suc i < length out" for i
  proof -
    have "(int i + 1) * step \<le> d"
      using step_bound [of n d "int i + 1"] n1 that len by (simp add: step_def)
    then show ?thesis using that nth [of i] nth [of "Suc i"] by (simp add: stub_chapter_fields)
  qed
  have ordered: "\<exists>e. ChapterData.end_sec (out ! i) = Some e \<and> ChapterData.start_sec (out ! i) \<le> e"
    if "n - 1 \<le> d" "i < length out" for i
  proof -
    have a: "int i * step \<le> d"
      using step_bound [of n d "int i"] n1 that len by (simp add: step_def)
    have "int i * step \<le> (int i + 1) * step" using step1 by (simp add: distrib_right)
    with a show ?thesis using nth [OF that(2)] by (simp add: stub_chapter_fields)
  qed
  have cover: "ChapterData.end_sec (last out) = Some d" if "n dvd d \<or> d \<le> n"
  proof -
    have ne: "out \<noteq> []" using len n1 by auto
    have "last out = out ! (nat n - 1)" using ne len by (simp add: last_conv_nth)
    also have "\<dots> = stub_chapter step d (n - 1)" using nth [of "nat n - 1"] len n1 by simp
    finally have "ChapterData.end_sec (last out) = Some (min (n * step) d)"
      by (simp add: stub_chapter_fields)
    moreover have "d \<le> n * step" using step_cover [OF n1 that] by (simp add: step_def)
    ultimately show ?thesis by simp
  qed
  have "lst \<in> set transcript_lines \<and>
        (\<forall>l\<in>set transcript_lines. TranscriptLine.start_sec l \<le> TranscriptLine.start_sec lst) \<and>
        (0 \<le> TranscriptLine.start_sec lst \<and> TranscriptLine.start_sec lst \<le> end_or_start lst
           \<longrightarrow> d = end_or_start lst) \<and>
        int (length out) = n \<and>
        (\<forall>i<length out.
           ChapterData.start_sec (out ! i) = int i * step \<and>
           ChapterData.end_sec (out ! i) = Some (min ((int i + 1) * step) d) \<and>
           confidence (out ! i) = Some (5 / 10) \<and>
           source (out ! i) = ascii ''auto_stub'') \<and>
        ChapterData.start_sec (out ! 0) = 0 \<and>
        (n - 1 \<le> d \<longrightarrow>
           (\<forall>i. Suc i < length out \<longrightarrow>
              ChapterData.end_sec (out ! i) = Some (ChapterData.start_sec (out ! Suc i))) \<and>
           (\<forall>i<length out. \<exists>e. ChapterData.end_sec (out ! i) = Some e \<and>
              ChapterData.start_sec (out ! i) \<le> e)) \<and>
        (n dvd d \<or> d \<le> n \<longrightarrow> ChapterData.end_sec (last out) = Some d)"
    using lst dur len n1 fields first contig ordered cover by (intro conjI impI allI) simp_all
  then show ?thesis
    using res unfolding Let_def lst_def [symmetric] d_def [symmetric] n_def [symmetric] step_def [symmetric]
    by blast
qed


lemma py_range_10: "py_range 10 = [0, 1, 2, 3, 4, 5, 6, 7, 8, 9]"
  by code_simp

lemmas fallback_eval = fallback_stub_def py_last_def py_floordiv_def py_range_10 line_duration_def
  stub_chapter_fields end_or_start_def Let_def

theorem fallback_stub_spans_witness:
  "example_lines \<noteq> [] \<and> (1::int) \<le> 10 \<and>
   map ChapterData.start_sec (projr (fallback_stub example_lines 10)) =
     [0, 3, 6, 9, 12, 15, 18, 21, 24, 27] \<and>
   map ChapterData.end_sec (projr (fallback_stub example_lines 10)) =
     [Some 3, Some 6, Some 9, Some 12, Some 15, Some 18, Some 21, Some 24, Some 27, Some 30]"
  using fallback_stub_spans [of example_lines 10]
  by (simp add: example_lines_def fallback_eval)

text \<open>
  A line from 0 to 25 and ten chapters give \<open>step = 2\<close>: the last chapter ends at 20, and
  the span from 20 to 25 is covered by no chapter. A line from 0 to 5 gives \<open>step = 1\<close>:
  chapter 5 ends at 5 and chapter 6 starts at 6 and ends at 5.
\<close>

theorem fallback_stub_spans_counterexample:
  "map ChapterData.start_sec (projr (fallback_stub
      [\<lparr>TranscriptLine.start_sec = 0, end_sec = Some 25, line_text = ascii ''alpha''\<rparr>] 10)) =
     [0, 2, 4, 6, 8, 10, 12, 14, 16, 18] \<and>
   map ChapterData.end_sec (projr (fallback_stub
      [\<lparr>TranscriptLine.start_sec = 0, end_sec = Some 25, line_text = ascii ''alpha''\<rparr>] 10)) =
     [Some 2, Some 4, Some 6, Some 8, Some 10, Some 12, Some 14, Some 16, Some 18, Some 20] \<and>
   map ChapterData.start_sec (projr (fallback_stub
      [\<lparr>TranscriptLine.start_sec = 0, end_sec = Some 5, line_text = ascii ''alpha''\<rparr>] 10)) =
     [0, 1, 2, 3, 4, 5, 6, 7, 8, 9] \<and>
   map ChapterData.end_sec (projr (fallback_stub
      [\<lparr>TranscriptLine.start_sec = 0, end_sec = Some 5, line_text = ascii ''alpha''\<rparr>] 10)) =
     [Some 1, Some 2, Some 3, Some 4, Some 5, Some 5, Some 5, Some 5, Some 5, Some 5]"
  by (simp add: fallback_eval)


section \<open>Transcript parser: results\<close>




























section \<open>Response parser: results\<close>




lemma py_get_obj_total: "\<exists>v. py_get (JObj kvs) key d = Inr v"
  by (simp split: option.splits)


lemma parse_row_obj_start_error:
  assumes "hms_to_seconds_str ud (case map_of kvs (ascii ''start'') of None \<Rightarrow> JStr (ascii ''00:00:00'') | Some v \<Rightarrow> v) = Inl x"
  shows "parse_row ud idx (JObj kvs) = Inl x"
  using assms by (auto simp add: parse_row_def split: option.splits)

lemma parse_row_obj_end_error:
  assumes "hms_to_seconds_str ud (case map_of kvs (ascii ''start'') of None \<Rightarrow> JStr (ascii ''00:00:00'') | Some v \<Rightarrow> v) = Inr s"
    and "hms_to_seconds_str ud (case map_of kvs (ascii ''end'') of None \<Rightarrow> JStr (ascii ''00:00:00'') | Some v \<Rightarrow> v) = Inl x"
  shows "parse_row ud idx (JObj kvs) = Inl x"
  using assms by (auto simp add: parse_row_def split: option.splits)


lemma parse_rows_skip:
  "parse_row ud idx ch = Inl x \<Longrightarrow>
   parse_rows ud idx (ch # rest) lg = parse_rows ud (Suc idx) rest (lg @ [Row_failed x])"
  by simp




text \<open>
  C4 fails on the code. The content \<^verbatim>\<open>{"chapters": null}\<close> is valid JSON, so that no
  \<open>JSONDecodeError\<close> is raised; \<open>parsed.get("chapters", [])\<close> is \<open>None\<close>, and
  \<open>enumerate(None)\<close>, which no \<open>try\<close> encloses, raises \<open>TypeError\<close> to the caller.
\<close>

theorem parse_llm_response_null_chapters_raises:
  "parse_llm_response (\<lambda>c. None) example_json_loads (chat_response null_chapters_content) [] =
     (Inl TypeError, [])"
  by (simp add: parse_llm_response_def chat_response_def example_json_loads_def
      null_chapters_content_def example_content_def ascii_def)





end
